theory Spec2Isabelle
  imports Complex_Main "HOL-Library.AList" "HOL-Library.Log_Nat"
begin

section \<open>The lattice of pytac: data model\<close>

text \<open>
  The class \<^verbatim>\<open>Lattice\<close> of \<^verbatim>\<open>pytac/lattice.py\<close> is a container of elements with a
  table of models and a table of unit conversions. Its collaborators (elements, models,
  unit conversions, devices) are objects of classes defined elsewhere: the lattice only
  reads their attributes and calls their methods.

  The lengths of the elements are Python floats, and the lattice adds them: they are
  IEEE doubles here, added with rounding. The values of fields and the energy are only
  handed on by the lattice, never computed with; they are carried as reals.
\<close>

type_synonym field = string
type_synonym family = string

text \<open>
  \<^verbatim>\<open>pytac.SP\<close>, \<^verbatim>\<open>pytac.RB\<close>, \<^verbatim>\<open>pytac.ENG\<close>, \<^verbatim>\<open>pytac.PHYS\<close>, \<^verbatim>\<open>pytac.LIVE\<close> and
  \<^verbatim>\<open>pytac.SIM\<close> are constants of the package. A caller may pass anything as a handle or
  as a model key, which the third constructors stand for.
\<close>

datatype handle = SP | RB | OtherHandle string

datatype units = ENG | PHYS

datatype model_key = LIVE | SIM | OtherModel string

text \<open>
  The exception classes the lattice raises or catches. Messages are not modelled.
  \<open>OtherException\<close> is any exception that is neither a \<^verbatim>\<open>KeyError\<close> nor one of
  the package's own classes.
\<close>

datatype exn =
    KeyError
  | DeviceException
  | FieldException
  | HandleException
  | LatticeException
  | OtherException string

record device =
  device_id :: nat
  device_name :: string

section \<open>Python floats\<close>

text \<open>
  A Python float is an IEEE 754 double. \<open>Fin m e\<close> is the finite double of value
  \<open>m * 2 ^ e\<close>, kept with an odd \<open>m\<close>, or \<open>Fin 0 0\<close> for zero, so that a value has one
  representation; the two signed zeros, which Python compares equal, are one value.
\<close>

datatype pyfloat = Fin int int | PosInf | NegInf | NaN

function normalize :: "int \<Rightarrow> int \<Rightarrow> pyfloat" where
  "normalize m e =
     (if m = 0 then Fin 0 0
      else if even m then normalize (m div 2) (e + 1)
      else Fin m e)"
  by pat_completeness auto
termination
  by (relation "measure (\<lambda>(m, e). nat \<bar>m\<bar>)") auto

text \<open>\<open>m / 2 ^ k\<close> rounded to the nearest integer, a tie going to the even one.\<close>

definition round_half_even :: "int \<Rightarrow> nat \<Rightarrow> int" where
  "round_half_even m k =
     (if k = 0 then m
      else let q = m div 2 ^ k; r = m mod 2 ^ k; half = 2 ^ (k - 1)
           in if r < half then q
              else if half < r then q + 1
              else if even q then q else q + 1)"

text \<open>
  The double nearest to \<open>m * 2 ^ e\<close>: 53 bits are kept, the last bit is worth no less
  than \<open>2 ^ - 1074\<close>, and a result of \<open>2 ^ 1024\<close> or more is an infinity.
\<close>

definition round_double :: "int \<Rightarrow> int \<Rightarrow> pyfloat" where
  "round_double m e =
     (let e' = max e (max (e + bitlen \<bar>m\<bar> - 53) (- 1074));
          m' = round_half_even m (nat (e' - e))
      in if m' = 0 then Fin 0 0
         else if 1024 < e' + bitlen \<bar>m'\<bar> then (if 0 < m' then PosInf else NegInf)
         else normalize m' e')"

definition double_of_int :: "int \<Rightarrow> pyfloat" where
  "double_of_int n = round_double n 0"

text \<open>Python's \<^verbatim>\<open>+\<close> and \<^verbatim>\<open>-\<close> on floats: the exact result, rounded.\<close>

fun fadd :: "pyfloat \<Rightarrow> pyfloat \<Rightarrow> pyfloat" where
  "fadd (Fin m1 e1) (Fin m2 e2) =
     (let e = min e1 e2
      in round_double (m1 * 2 ^ nat (e1 - e) + m2 * 2 ^ nat (e2 - e)) e)"
| "fadd NaN y = NaN"
| "fadd x NaN = NaN"
| "fadd PosInf NegInf = NaN"
| "fadd NegInf PosInf = NaN"
| "fadd PosInf y = PosInf"
| "fadd x PosInf = PosInf"
| "fadd NegInf y = NegInf"
| "fadd x NegInf = NegInf"

declare fadd.simps [simp del]

fun fneg :: "pyfloat \<Rightarrow> pyfloat" where
  "fneg (Fin m e) = Fin (- m) e"
| "fneg PosInf = NegInf"
| "fneg NegInf = PosInf"
| "fneg NaN = NaN"

definition fsub :: "pyfloat \<Rightarrow> pyfloat \<Rightarrow> pyfloat" where
  "fsub x y = fadd x (fneg y)"

section \<open>Collaborators and the lattice\<close>

text \<open>
  Every method call on a collaborator is an event. The events made so far, oldest first,
  are the only thing the outside world is known by: what a collaborator answers may
  depend on all of it. The first argument of each event is the identity of the object
  called.
\<close>

datatype call =
    ModelGetFields nat
  | ModelGetValue nat field handle
  | ModelSetValue nat field real
  | ModelAddDevice nat field device
  | ModelGetDevice nat field
  | UcConvert nat real units units
  | ElemGetDevice nat field
  | ElemGetValue nat field handle
  | ElemSetValue nat field real

text \<open>
  A collaborator is a record of its identity, its attributes and, for each method, the
  answer it gives as a function of the calls made before and the arguments: \<open>Inl\<close> an
  exception raised, \<open>Inr\<close> a value returned.
\<close>

record model =
  model_id :: nat
  model_units :: units
  model_get_fields :: "call list \<Rightarrow> exn + field set"
  model_get_value :: "call list \<Rightarrow> field \<Rightarrow> handle \<Rightarrow> exn + real"
  model_set_value :: "call list \<Rightarrow> field \<Rightarrow> real \<Rightarrow> exn + unit"
  model_add_device :: "call list \<Rightarrow> field \<Rightarrow> device \<Rightarrow> exn + unit"
  model_get_device :: "call list \<Rightarrow> field \<Rightarrow> exn + device"

record unitconv =
  uc_id :: nat
  convert :: "call list \<Rightarrow> real \<Rightarrow> units \<Rightarrow> units \<Rightarrow> exn + real"

text \<open>
  An element: \<open>elem_id\<close> is the identity of the object (what Python's \<^verbatim>\<open>is\<close> compares),
  \<open>elem_length\<close>, \<open>families\<close> and \<open>cell\<close> are the attributes \<^verbatim>\<open>length\<close> (a float),
  \<^verbatim>\<open>families\<close> (a set of strings) and \<^verbatim>\<open>cell\<close> (an integer or \<^verbatim>\<open>None\<close>).
\<close>

record element =
  elem_id :: nat
  elem_length :: pyfloat
  families :: "family set"
  cell :: "int option"
  elem_get_device :: "call list \<Rightarrow> field \<Rightarrow> exn + device"
  elem_get_value :: "call list \<Rightarrow> field \<Rightarrow> handle \<Rightarrow> exn + real"
  elem_set_value :: "call list \<Rightarrow> field \<Rightarrow> real \<Rightarrow> exn + unit"

text \<open>
  The attributes of a \<^verbatim>\<open>Lattice\<close> object: \<^verbatim>\<open>name\<close>, \<^verbatim>\<open>_lattice\<close>, \<^verbatim>\<open>_energy\<close>,
  \<^verbatim>\<open>_models\<close> and \<^verbatim>\<open>_uc\<close>. \<^verbatim>\<open>_models\<close> is iterated by \<^verbatim>\<open>get_fields\<close>, so it is an
  association list in insertion order; \<^verbatim>\<open>_uc\<close> is only looked up.
\<close>

record lattice =
  name :: string
  elems :: "element list"
  energy :: real
  models :: "(model_key \<times> model) list"
  uc :: "field \<rightharpoonup> unitconv"

text \<open>The state a method runs in: the lattice object and the calls made so far.\<close>

record state =
  self :: lattice
  trace :: "call list"

type_synonym 'a operation = "state \<Rightarrow> (exn + 'a) \<times> state"

section \<open>Plumbing: calls, sequencing, handlers\<close>

definition call_ext :: "call \<Rightarrow> (call list \<Rightarrow> exn + 'a) \<Rightarrow> 'a operation" where
  "call_ext c answer s = (answer (trace s), s\<lparr>trace := trace s @ [c]\<rparr>)"

definition raise :: "exn \<Rightarrow> 'a operation" where
  "raise e s = (Inl e, s)"

definition return :: "'a \<Rightarrow> 'a operation" where
  "return x s = (Inr x, s)"

definition and_then :: "'a operation \<Rightarrow> ('a \<Rightarrow> 'b operation) \<Rightarrow> 'b operation" where
  "and_then m f s =
     (case m s of
        (Inl e, s1) \<Rightarrow> (Inl e, s1)
      | (Inr x, s1) \<Rightarrow> f x s1)"

definition try_except :: "'a operation \<Rightarrow> (exn \<Rightarrow> exn) \<Rightarrow> 'a operation" where
  "try_except m handler s =
     (case m s of
        (Inl e, s1) \<Rightarrow> (Inl (handler e), s1)
      | (Inr x, s1) \<Rightarrow> (Inr x, s1))"

definition lookup_models :: "model_key \<Rightarrow> model operation" where
  "lookup_models k s =
     (case map_of (models (self s)) k of
        None \<Rightarrow> (Inl KeyError, s)
      | Some m \<Rightarrow> (Inr m, s))"

definition lookup_uc :: "field \<Rightarrow> unitconv operation" where
  "lookup_uc f s =
     (case uc (self s) f of
        None \<Rightarrow> (Inl KeyError, s)
      | Some c \<Rightarrow> (Inr c, s))"

section \<open>The methods of Lattice\<close>

definition init :: "string \<Rightarrow> real \<Rightarrow> lattice" where
  "init nm en = \<lparr>name = nm, elems = [], energy = en, models = [], uc = Map.empty\<rparr>"

definition set_model :: "model \<Rightarrow> model_key \<Rightarrow> unit operation" where
  "set_model m model_type s =
     (Inr (), s\<lparr>self := (self s)\<lparr>models := AList.update model_type m (models (self s))\<rparr>\<rparr>)"

fun get_fields_loop :: "model_key list \<Rightarrow> field set \<Rightarrow> (field set) operation" where
  "get_fields_loop [] fs s = (Inr fs, s)"
| "get_fields_loop (k # ks) fs s =
     (case lookup_models k s of
        (Inl e, s1) \<Rightarrow> (Inl e, s1)
      | (Inr m, s1) \<Rightarrow>
          (case call_ext (ModelGetFields (model_id m)) (model_get_fields m) s1 of
             (Inl e, s2) \<Rightarrow> (Inl e, s2)
           | (Inr got, s2) \<Rightarrow> get_fields_loop ks (fs \<union> got) s2))"

definition get_fields :: "(field set) operation" where
  "get_fields s = get_fields_loop (map fst (models (self s))) {} s"

definition add_device :: "field \<Rightarrow> device \<Rightarrow> unitconv \<Rightarrow> unit operation" where
  "add_device f d c =
     and_then (lookup_models LIVE) (\<lambda>m.
     and_then (call_ext (ModelAddDevice (model_id m) f d) (\<lambda>t. model_add_device m t f d)) (\<lambda>_.
       (\<lambda>s. (Inr (), s\<lparr>self := (self s)\<lparr>uc := (uc (self s))(f \<mapsto> c)\<rparr>\<rparr>))))"

definition get_device :: "field \<Rightarrow> device operation" where
  "get_device f =
     and_then (lookup_models LIVE) (\<lambda>m.
       call_ext (ModelGetDevice (model_id m) f) (\<lambda>t. model_get_device m t f))"

definition get_unitconv :: "field \<Rightarrow> unitconv operation" where
  "get_unitconv f = lookup_uc f"

text \<open>
  \<^verbatim>\<open>get_value\<close>: the three statements of the \<^verbatim>\<open>try\<close> block, then its two handlers.
  A \<^verbatim>\<open>KeyError\<close> raised anywhere in the block becomes a \<^verbatim>\<open>DeviceException\<close>; a
  \<^verbatim>\<open>FieldException\<close> is raised again as a \<^verbatim>\<open>FieldException\<close>; anything else propagates.
\<close>

fun get_value_handler :: "exn \<Rightarrow> exn" where
  "get_value_handler KeyError = DeviceException"
| "get_value_handler FieldException = FieldException"
| "get_value_handler e = e"

definition get_value :: "field \<Rightarrow> handle \<Rightarrow> units \<Rightarrow> model_key \<Rightarrow> real operation" where
  "get_value f h u model_k =
     try_except
       (and_then (lookup_models model_k) (\<lambda>m.
        and_then (call_ext (ModelGetValue (model_id m) f h) (\<lambda>t. model_get_value m t f h)) (\<lambda>v.
        and_then (lookup_uc f) (\<lambda>c.
          call_ext (UcConvert (uc_id c) v (model_units m) u)
                   (\<lambda>t. convert c t v (model_units m) u)))))
       get_value_handler"

text \<open>
  \<^verbatim>\<open>set_value\<close>: the handle check, the model lookup under its own handler, then the
  conversion and the write under a second handler.
\<close>

fun set_value_handler1 :: "exn \<Rightarrow> exn" where
  "set_value_handler1 KeyError = DeviceException"
| "set_value_handler1 e = e"

fun set_value_handler2 :: "exn \<Rightarrow> exn" where
  "set_value_handler2 KeyError = FieldException"
| "set_value_handler2 FieldException = FieldException"
| "set_value_handler2 e = e"

definition set_value :: "field \<Rightarrow> real \<Rightarrow> handle \<Rightarrow> units \<Rightarrow> model_key \<Rightarrow> unit operation" where
  "set_value f v h u model_k =
     (if h \<noteq> SP then raise HandleException
      else
        and_then (try_except (lookup_models model_k) set_value_handler1) (\<lambda>m.
          try_except
            (and_then (lookup_uc f) (\<lambda>c.
             and_then (call_ext (UcConvert (uc_id c) v u (model_units m))
                                (\<lambda>t. convert c t v u (model_units m))) (\<lambda>v'.
               call_ext (ModelSetValue (model_id m) f v') (\<lambda>t. model_set_value m t f v'))))
            set_value_handler2))"

definition get_energy :: "real operation" where
  "get_energy s = (Inr (energy (self s)), s)"

text \<open>
  \<^verbatim>\<open>get_length\<close> and \<^verbatim>\<open>get_s\<close> start from the integer \<^verbatim>\<open>0\<close>, which Python turns into the
  float zero at the first addition and compares equal to it.
\<close>

definition get_length :: "pyfloat operation" where
  "get_length s =
     (Inr (foldl (\<lambda>total_length e. fadd total_length (elem_length e)) (Fin 0 0) (elems (self s))), s)"

definition add_element :: "element \<Rightarrow> unit operation" where
  "add_element element s = (Inr (), s\<lparr>self := (self s)\<lparr>elems := elems (self s) @ [element]\<rparr>\<rparr>)"

text \<open>
  \<^verbatim>\<open>get_elements\<close>. The test \<^verbatim>\<open>family in element.families\<close> is a membership test in a
  set of strings, so it is false when \<^verbatim>\<open>family\<close> is \<^verbatim>\<open>None\<close>. This matters: with
  \<^verbatim>\<open>family\<close> \<^verbatim>\<open>None\<close> the variable \<^verbatim>\<open>elements\<close> is the list \<^verbatim>\<open>self._lattice\<close> itself, not a
  copy, and the loop appends nothing to it.
\<close>

fun family_in :: "family option \<Rightarrow> family set \<Rightarrow> bool" where
  "family_in None fs = False"
| "family_in (Some f) fs = (f \<in> fs)"

definition get_elements_step :: "family option \<Rightarrow> element \<Rightarrow> element list \<Rightarrow> element list" where
  "get_elements_step family element elements =
     (if family_in family (families element) then elements @ [element] else elements)"

definition get_elements :: "family option \<Rightarrow> int option \<Rightarrow> (element list) operation" where
  "get_elements family cell_arg s =
     (let elements0 = (if family = None then elems (self s) else []);
          elements1 = fold (get_elements_step family) (elems (self s)) elements0;
          elements2 = (case cell_arg of
                         None \<Rightarrow> elements1
                       | Some c \<Rightarrow> filter (\<lambda>e. cell e = Some c) elements1)
      in (Inr elements2, s))"

definition get_all_families :: "(family set) operation" where
  "get_all_families s = (Inr (foldl (\<lambda>fams element. fams \<union> families element) {} (elems (self s))), s)"

text \<open>\<^verbatim>\<open>get_s\<close>: \<^verbatim>\<open>el is not elem\<close> compares identities.\<close>

fun get_s_loop :: "element \<Rightarrow> element list \<Rightarrow> pyfloat \<Rightarrow> exn + pyfloat" where
  "get_s_loop elem [] s_pos = Inl LatticeException"
| "get_s_loop elem (el # rest) s_pos =
     (if elem_id el \<noteq> elem_id elem then get_s_loop elem rest (fadd s_pos (elem_length el))
      else Inr s_pos)"

definition get_s :: "element \<Rightarrow> pyfloat operation" where
  "get_s elem s = (get_s_loop elem (elems (self s)) (Fin 0 0), s)"

fun get_family_s_loop :: "element list \<Rightarrow> pyfloat list \<Rightarrow> (pyfloat list) operation" where
  "get_family_s_loop [] s_positions s = (Inr s_positions, s)"
| "get_family_s_loop (element # rest) s_positions s =
     (case get_s element s of
        (Inl e, s1) \<Rightarrow> (Inl e, s1)
      | (Inr p, s1) \<Rightarrow> get_family_s_loop rest (s_positions @ [p]) s1)"

definition get_family_s :: "family option \<Rightarrow> (pyfloat list) operation" where
  "get_family_s family =
     and_then (get_elements family None) (\<lambda>elements. get_family_s_loop elements [])"

text \<open>
  \<^verbatim>\<open>get_element_devices\<close>: the \<^verbatim>\<open>try\<close> around each lookup catches \<^verbatim>\<open>KeyError\<close> only.
\<close>

fun get_element_devices_loop :: "field \<Rightarrow> element list \<Rightarrow> device list \<Rightarrow> (device list) operation" where
  "get_element_devices_loop f [] devices s = (Inr devices, s)"
| "get_element_devices_loop f (element # rest) devices s =
     (case call_ext (ElemGetDevice (elem_id element) f) (\<lambda>t. elem_get_device element t f) s of
        (Inl e, s1) \<Rightarrow>
          (if e = KeyError then get_element_devices_loop f rest devices s1 else (Inl e, s1))
      | (Inr d, s1) \<Rightarrow> get_element_devices_loop f rest (devices @ [d]) s1)"

definition get_element_devices :: "family option \<Rightarrow> field \<Rightarrow> (device list) operation" where
  "get_element_devices family f =
     and_then (get_elements family None) (\<lambda>elements. get_element_devices_loop f elements [])"

definition get_element_device_names :: "family option \<Rightarrow> field \<Rightarrow> (string list) operation" where
  "get_element_device_names family f =
     and_then (get_element_devices family f) (\<lambda>devices. return (map device_name devices))"

text \<open>
  \<^verbatim>\<open>get_element_values\<close>. A \<^verbatim>\<open>dtype\<close> is taken as what \<^verbatim>\<open>numpy.array\<close> does with it to a
  list of values; the result is then an array and not a list.
\<close>

type_synonym dtype = "real list \<Rightarrow> exn + real list"

datatype value_seq = PyList "real list" | NdArray "real list"

fun get_element_values_loop :: "field \<Rightarrow> handle \<Rightarrow> element list \<Rightarrow> real list \<Rightarrow> (real list) operation" where
  "get_element_values_loop f h [] vals s = (Inr vals, s)"
| "get_element_values_loop f h (element # rest) vals s =
     (case call_ext (ElemGetValue (elem_id element) f h) (\<lambda>t. elem_get_value element t f h) s of
        (Inl e, s1) \<Rightarrow> (Inl e, s1)
      | (Inr v, s1) \<Rightarrow> get_element_values_loop f h rest (vals @ [v]) s1)"

definition get_element_values :: "family option \<Rightarrow> field \<Rightarrow> handle \<Rightarrow> dtype option \<Rightarrow> value_seq operation" where
  "get_element_values family f h dt =
     and_then (get_elements family None) (\<lambda>elements.
     and_then (get_element_values_loop f h elements []) (\<lambda>vals.
       (case dt of
          None \<Rightarrow> return (PyList vals)
        | Some numpy_array \<Rightarrow>
            (case numpy_array vals of
               Inl e \<Rightarrow> raise e
             | Inr arr \<Rightarrow> return (NdArray arr)))))"

text \<open>
  \<^verbatim>\<open>set_element_values\<close>: the length check, then one call of the element's own
  \<^verbatim>\<open>set_value\<close> for each pair of \<^verbatim>\<open>zip(elements, values)\<close>.
\<close>

fun set_element_values_loop :: "field \<Rightarrow> (element \<times> real) list \<Rightarrow> unit operation" where
  "set_element_values_loop f [] s = (Inr (), s)"
| "set_element_values_loop f ((element, v) # rest) s =
     (case call_ext (ElemSetValue (elem_id element) f v) (\<lambda>t. elem_set_value element t f v) s of
        (Inl e, s1) \<Rightarrow> (Inl e, s1)
      | (Inr u, s1) \<Rightarrow> set_element_values_loop f rest s1)"

definition set_element_values :: "family option \<Rightarrow> field \<Rightarrow> real list \<Rightarrow> unit operation" where
  "set_element_values family f vals =
     and_then (get_elements family None) (\<lambda>elements.
       (if length elements \<noteq> length vals then raise LatticeException
        else set_element_values_loop f (zip elements vals)))"

section \<open>Specification-level notions\<close>

text \<open>
  The elements of a family, as the specification words it: all elements when no family
  is asked for, otherwise those whose set of families contains it, in lattice order.
\<close>

definition family_members :: "family option \<Rightarrow> lattice \<Rightarrow> element list" where
  "family_members family lat =
     (case family of
        None \<Rightarrow> elems lat
      | Some F \<Rightarrow> filter (\<lambda>e. F \<in> families e) (elems lat))"

text \<open>
  The calls \<^verbatim>\<open>element.set_value(field, value)\<close> for a list of elements and a list of
  values, pairwise and in order, and the answers the elements give when these calls are
  made one after the other starting from the calls \<open>t\<close>.
\<close>

definition set_calls :: "field \<Rightarrow> element list \<Rightarrow> real list \<Rightarrow> call list" where
  "set_calls f es vals = map (\<lambda>(e, v). ElemSetValue (elem_id e) f v) (zip es vals)"

fun set_answers :: "field \<Rightarrow> (element \<times> real) list \<Rightarrow> call list \<Rightarrow> (exn + unit) list" where
  "set_answers f [] t = []"
| "set_answers f ((e, v) # ps) t =
     elem_set_value e t f v # set_answers f ps (t @ [ElemSetValue (elem_id e) f v])"

text \<open>
  The same for \<^verbatim>\<open>element.get_device(field)\<close>, and the devices among a list of answers.
\<close>

definition device_calls :: "field \<Rightarrow> element list \<Rightarrow> call list" where
  "device_calls f es = map (\<lambda>e. ElemGetDevice (elem_id e) f) es"

fun device_answers :: "field \<Rightarrow> element list \<Rightarrow> call list \<Rightarrow> (exn + device) list" where
  "device_answers f [] t = []"
| "device_answers f (e # es) t =
     elem_get_device e t f # device_answers f es (t @ [ElemGetDevice (elem_id e) f])"

definition found_devices :: "(exn + device) list \<Rightarrow> device list" where
  "found_devices rs = concat (map (\<lambda>r. case r of Inl e \<Rightarrow> [] | Inr d \<Rightarrow> [d]) rs)"

text \<open>
  A unit conversion that is its own inverse between the units \<open>u\<close> and \<open>mu\<close>: converting
  from \<open>u\<close> to \<open>mu\<close> returns, and converting the result back gives the value converted.
  A model that returns, for the setpoint of a field, the value last written to the field.
\<close>

definition own_inverse :: "unitconv \<Rightarrow> units \<Rightarrow> units \<Rightarrow> bool" where
  "own_inverse c u mu \<longleftrightarrow>
     (\<forall>t a. \<exists>b. convert c t a u mu = Inr b \<and> (\<forall>t'. convert c t' b mu u = Inr a))"

definition returns_last_set :: "model \<Rightarrow> field \<Rightarrow> bool" where
  "returns_last_set m f \<longleftrightarrow>
     (\<forall>t x. model_set_value m t f x = Inr () \<and>
            model_get_value m (t @ [ModelSetValue (model_id m) f x]) f SP = Inr x)"

text \<open>A method that leaves the lattice object as it was, whatever it returns or raises.\<close>

definition keeps_self :: "'a operation \<Rightarrow> bool" where
  "keeps_self m \<longleftrightarrow> (\<forall>s. self (snd (m s)) = self s)"

section \<open>A concrete ring\<close>

text \<open>
  A simulated model that remembers the last value written to the field \<open>x\<close>, a unit
  conversion that doubles from engineering to physics units and halves back, and a ring
  of two beam position monitors around a quadrupole, of lengths 1.0, 2.0 and 3.0.
\<close>

definition last_set :: "nat \<Rightarrow> field \<Rightarrow> call list \<Rightarrow> real option" where
  "last_set i f t =
     fold (\<lambda>c acc. case c of
                     ModelSetValue j g x \<Rightarrow> (if j = i \<and> g = f then Some x else acc)
                   | _ \<Rightarrow> acc) t None"

definition demo_model :: model where
  "demo_model =
     \<lparr>model_id = 1, model_units = PHYS,
      model_get_fields = (\<lambda>t. Inr {''x''}),
      model_get_value = (\<lambda>t f h.
         if f = ''x'' then (case last_set 1 f t of None \<Rightarrow> Inr 0 | Some x \<Rightarrow> Inr x)
         else Inl FieldException),
      model_set_value = (\<lambda>t f v. if f = ''x'' then Inr () else Inl FieldException),
      model_add_device = (\<lambda>t f d. Inr ()),
      model_get_device = (\<lambda>t f. Inl KeyError)\<rparr>"

definition demo_uc :: unitconv where
  "demo_uc =
     \<lparr>uc_id = 7,
      convert = (\<lambda>t v origin target.
         if origin = target then Inr v
         else if origin = ENG then Inr (2 * v) else Inr (v / 2))\<rparr>"

definition mk_element :: "nat \<Rightarrow> pyfloat \<Rightarrow> family set \<Rightarrow> int option \<Rightarrow> (field \<times> device) list \<Rightarrow> element" where
  "mk_element i len fams c devs =
     \<lparr>elem_id = i, elem_length = len, families = fams, cell = c,
      elem_get_device = (\<lambda>t f. case map_of devs f of None \<Rightarrow> Inl KeyError | Some d \<Rightarrow> Inr d),
      elem_get_value = (\<lambda>t f h. Inr 0),
      elem_set_value = (\<lambda>t f v. Inr ())\<rparr>"

definition bpm1 :: element where
  "bpm1 = mk_element 1 (double_of_int 1) {''BPM''} (Some 1) [(''x'', \<lparr>device_id = 11, device_name = ''BPM1:X''\<rparr>)]"

definition quad :: element where
  "quad = mk_element 2 (double_of_int 2) {''QUAD''} (Some 1) []"

definition bpm2 :: element where
  "bpm2 = mk_element 3 (double_of_int 3) {''BPM''} (Some 2) [(''y'', \<lparr>device_id = 13, device_name = ''BPM2:Y''\<rparr>)]"

definition demo_state :: state where
  "demo_state =
     \<lparr>self = \<lparr>name = ''ring'', elems = [bpm1, quad, bpm2], energy = 3000,
              models = [(LIVE, demo_model)], uc = [''x'' \<mapsto> demo_uc]\<rparr>,
      trace = []\<rparr>"

text \<open>The same model on a lattice with no unit conversion at all.\<close>

definition no_uc_state :: state where
  "no_uc_state =
     \<lparr>self = \<lparr>name = ''ring'', elems = [], energy = 3000,
              models = [(LIVE, demo_model)], uc = Map.empty\<rparr>,
      trace = []\<rparr>"

text \<open>
  A ring of three drifts of length \<^verbatim>\<open>0.1\<close>, the double \<open>3602879701896397 * 2 ^ - 55\<close>.
\<close>

definition tenth :: pyfloat where
  "tenth = Fin 3602879701896397 (- 55)"

definition drift :: "nat \<Rightarrow> element" where
  "drift i = mk_element i tenth {''DRIFT''} (Some 1) []"

definition tenths_state :: state where
  "tenths_state =
     \<lparr>self = \<lparr>name = ''drifts'', elems = [drift 1, drift 2, drift 3], energy = 3000,
              models = [], uc = Map.empty\<rparr>,
      trace = []\<rparr>"

text \<open>The ring as three calls of \<^verbatim>\<open>add_element\<close> build it from a new lattice.\<close>

definition built_state :: state where
  "built_state =
     snd (add_element bpm2 (snd (add_element quad (snd (add_element bpm1
       \<lparr>self = init ''ring'' 3000, trace = []\<rparr>)))))"

lemmas demo_defs =
  demo_state_def bpm1_def quad_def bpm2_def mk_element_def demo_model_def demo_uc_def

section \<open>Reading a value whose field has no unit conversion\<close>

text \<open>
  C1, as amended. When the model is registered under the key asked for and answers the
  read of the field with a value, and the unit-conversion table has no entry for the
  field, \<^verbatim>\<open>get_value\<close> raises \<^verbatim>\<open>DeviceException\<close>: the \<^verbatim>\<open>KeyError\<close> of the table lookup is
  raised inside the \<^verbatim>\<open>try\<close> block and its \<^verbatim>\<open>except KeyError\<close> clause catches it. The
  model has been asked for the value by then, and nothing else has been called.
\<close>

theorem get_value_missing_unitconv:
  "map_of (models (self s)) k = Some m \<Longrightarrow> model_get_value m (trace s) f h = Inr v \<Longrightarrow> uc (self s) f = None \<Longrightarrow>
   get_value f h u k s = (Inl DeviceException, s\<lparr>trace := trace s @ [ModelGetValue (model_id m) f h]\<rparr>)"
  by (simp add: get_value_def try_except_def and_then_def lookup_models_def lookup_uc_def call_ext_def)

text \<open>
  C1 as first stated, that the caller sees a raw \<^verbatim>\<open>KeyError\<close> and no
  \<^verbatim>\<open>DeviceException\<close>, fails on a lattice with a live model that has the field \<open>x\<close> and
  an empty unit-conversion table.
\<close>

theorem get_value_missing_unitconv_counterexample:
  "map_of (models (self no_uc_state)) LIVE = Some demo_model \<and>
   model_get_value demo_model (trace no_uc_state) ''x'' RB = Inr 0 \<and>
   uc (self no_uc_state) ''x'' = None \<and>
   fst (get_value ''x'' RB ENG LIVE no_uc_state) = Inl DeviceException \<and>
   fst (get_value ''x'' RB ENG LIVE no_uc_state) \<noteq> Inl KeyError"
  by (simp add: get_value_def try_except_def and_then_def lookup_models_def lookup_uc_def call_ext_def
      no_uc_state_def demo_model_def last_set_def)

theorem get_value_missing_unitconv_witness:
  "map_of (models (self no_uc_state)) LIVE = Some demo_model \<and>
   model_get_value demo_model (trace no_uc_state) ''x'' RB = Inr 0 \<and>
   uc (self no_uc_state) ''x'' = None \<and>
   get_value ''x'' RB ENG LIVE no_uc_state =
     (Inl DeviceException, no_uc_state\<lparr>trace := [ModelGetValue 1 ''x'' RB]\<rparr>)"
proof -
  have m: "map_of (models (self no_uc_state)) LIVE = Some demo_model"
    by (simp add: no_uc_state_def)
  have g: "model_get_value demo_model (trace no_uc_state) ''x'' RB = Inr 0"
    by (simp add: no_uc_state_def demo_model_def last_set_def)
  have c: "uc (self no_uc_state) ''x'' = None"
    by (simp add: no_uc_state_def)
  from get_value_missing_unitconv [OF m g c, of ENG] m g c show ?thesis
    by (simp add: no_uc_state_def demo_model_def)
qed

section \<open>Writing with a handle that is not the setpoint\<close>

text \<open>
  C2. With any handle other than \<^verbatim>\<open>pytac.SP\<close>, \<^verbatim>\<open>set_value\<close> raises
  \<^verbatim>\<open>HandleException\<close> whatever the field, the value, the units, the model key and the
  tables of the lattice are, and no collaborator has been called: the state is the one
  the call started in.
\<close>

theorem set_value_wrong_handle:
  "h \<noteq> SP \<Longrightarrow> set_value f v h u k s = (Inl HandleException, s)"
  by (simp add: set_value_def raise_def)

theorem set_value_wrong_handle_witness:
  "RB \<noteq> SP \<and> set_value ''y'' 1 RB PHYS SIM demo_state = (Inl HandleException, demo_state)"
  using set_value_wrong_handle [of RB "''y''" 1 PHYS SIM demo_state] by simp

section \<open>The elements of a family and of a cell\<close>

lemma fold_step_None: "fold (get_elements_step None) xs acc = acc"
  by (induction xs arbitrary: acc) (simp_all add: get_elements_step_def)

lemma fold_step_Some:
  "fold (get_elements_step (Some F)) xs acc = acc @ filter (\<lambda>e. F \<in> families e) xs"
  by (induction xs arbitrary: acc) (simp_all add: get_elements_step_def)

lemma get_elements_no_cell: "get_elements family None s = (Inr (family_members family (self s)), s)"
  by (cases family) (simp_all add: get_elements_def family_members_def fold_step_None fold_step_Some)

text \<open>
  C3. Without a family \<^verbatim>\<open>get_elements\<close> returns all elements, with a family exactly
  the elements whose set of families contains it; a cell restricts either result to the
  elements of that cell. Each result is a \<open>filter\<close> of the lattice, hence in lattice
  order.
\<close>

theorem get_elements_filter:
  "get_elements None None s = (Inr (elems (self s)), s) \<and>
   get_elements None (Some c) s = (Inr (filter (\<lambda>e. cell e = Some c) (elems (self s))), s) \<and>
   get_elements (Some F) None s = (Inr (filter (\<lambda>e. F \<in> families e) (elems (self s))), s) \<and>
   get_elements (Some F) (Some c) s =
     (Inr (filter (\<lambda>e. F \<in> families e \<and> cell e = Some c) (elems (self s))), s)"
  by (simp add: get_elements_def fold_step_None fold_step_Some conj_commute)

theorem get_elements_filter_witness:
  "get_elements None (Some 1) demo_state = (Inr [bpm1, quad], demo_state) \<and>
   get_elements (Some ''BPM'') None demo_state = (Inr [bpm1, bpm2], demo_state) \<and>
   get_elements (Some ''BPM'') (Some 2) demo_state = (Inr [bpm2], demo_state)"
  using get_elements_filter [of demo_state 1 "''BPM''"] get_elements_filter [of demo_state 2 "''BPM''"]
  by (simp add: demo_defs)

section \<open>Lengths and positions\<close>

lemma double_of_int_values:
  "double_of_int 0 = Fin 0 0" "double_of_int 1 = Fin 1 0" "double_of_int 2 = Fin 1 1"
  "double_of_int 3 = Fin 3 0" "double_of_int 6 = Fin 3 1"
  by code_simp+

lemma fadd_small_values:
  "fadd (Fin 0 0) (Fin 1 0) = Fin 1 0" "fadd (Fin 1 0) (Fin 1 1) = Fin 3 0"
  "fadd (Fin 3 0) (Fin 3 0) = Fin 3 1"
  by code_simp+

lemma fadd_tenths:
  "fadd (Fin 0 0) (Fin 3602879701896397 (- 55)) = Fin 3602879701896397 (- 55)"
  "fadd (Fin 3602879701896397 (- 55)) (Fin 3602879701896397 (- 55)) = Fin 3602879701896397 (- 54)"
  "fadd (Fin 3602879701896397 (- 54)) (Fin 3602879701896397 (- 55)) = Fin 1351079888211149 (- 52)"
  by code_simp+

lemma fsub_tenth:
  "fsub (Fin 1351079888211149 (- 52)) (Fin 3602879701896397 (- 55)) = Fin 7205759403792795 (- 55)"
  by code_simp

text \<open>Rounding is there: \<^verbatim>\<open>2.0 ** 53 + 1.0 + 1.0\<close> is \<^verbatim>\<open>2.0 ** 53\<close>.\<close>

lemma fadd_absorbs:
  "foldl fadd (Fin 0 0) [Fin 1 53, Fin 1 0, Fin 1 0] = Fin 1 53"
  by code_simp

lemma foldl_lengths:
  "foldl (\<lambda>total_length e. fadd total_length (elem_length e)) a xs =
   foldl fadd a (map elem_length xs)"
  by (induction xs arbitrary: a) simp_all

lemma get_length_foldl:
  "get_length s = (Inr (foldl fadd (Fin 0 0) (map elem_length (elems (self s)))), s)"
  by (simp add: get_length_def foldl_lengths)

lemma get_s_loop_absent:
  "elem_id e \<notin> elem_id ` set xs \<Longrightarrow> get_s_loop e xs a = Inl LatticeException"
  by (induction xs arbitrary: a) auto

lemma get_s_loop_present:
  "i < length xs \<Longrightarrow> distinct (map elem_id xs) \<Longrightarrow>
   get_s_loop (xs ! i) xs a = Inr (foldl fadd a (map elem_length (take i xs)))"
proof (induction xs arbitrary: a i)
  case Nil
  then show ?case by simp
next
  case (Cons x xs)
  show ?case
  proof (cases i)
    case 0
    then show ?thesis by simp
  next
    case (Suc j)
    with Cons.prems have j: "j < length xs" and d: "distinct (map elem_id xs)"
      and n: "elem_id x \<notin> elem_id ` set xs" by auto
    from j have "xs ! j \<in> set xs" by simp
    with n have "elem_id x \<noteq> elem_id (xs ! j)" by auto
    with Suc Cons.IH [OF j d] show ?thesis by simp
  qed
qed

text \<open>
  C4, as amended. In a lattice whose elements are pairwise distinct objects, \<^verbatim>\<open>get_s\<close> of
  the element at index \<open>i\<close> is the float sum of the lengths of the \<open>i\<close> elements before
  it, added up from 0 in lattice order: 0 for the first element, and for the last element
  the position that, with the element's own length added to it, is \<^verbatim>\<open>get_length()\<close>. For an
  element that is no object of the lattice, whatever its attributes are, \<^verbatim>\<open>get_s\<close> raises
  \<^verbatim>\<open>LatticeException\<close>.
\<close>

theorem get_s_position:
  "distinct (map elem_id (elems (self s))) \<Longrightarrow>
   (\<forall>i < length (elems (self s)).
      get_s (elems (self s) ! i) s =
        (Inr (foldl fadd (Fin 0 0) (map elem_length (take i (elems (self s))))), s)) \<and>
   (elems (self s) \<noteq> [] \<longrightarrow>
      get_s (hd (elems (self s))) s = (Inr (Fin 0 0), s) \<and>
      (\<exists>p. get_s (last (elems (self s))) s = (Inr p, s) \<and>
         get_length s = (Inr (fadd p (elem_length (last (elems (self s))))), s))) \<and>
   (\<forall>e. elem_id e \<notin> elem_id ` set (elems (self s)) \<longrightarrow> get_s e s = (Inl LatticeException, s))"
proof (intro conjI allI impI)
  assume d: "distinct (map elem_id (elems (self s)))"
  let ?L = "elems (self s)"
  { fix i assume "i < length ?L"
    from get_s_loop_present [OF this d, of "Fin 0 0"]
    show "get_s (?L ! i) s = (Inr (foldl fadd (Fin 0 0) (map elem_length (take i ?L))), s)"
      by (simp add: get_s_def) }
  { assume ne: "?L \<noteq> []"
    then show "get_s (hd ?L) s = (Inr (Fin 0 0), s)"
      by (cases ?L) (simp_all add: get_s_def)
    let ?p = "foldl fadd (Fin 0 0) (map elem_length (take (length ?L - 1) ?L))"
    from ne have i: "length ?L - 1 < length ?L" by simp
    from ne have l: "last ?L = ?L ! (length ?L - 1)" by (simp add: last_conv_nth)
    from ne have split: "?L = take (length ?L - 1) ?L @ [last ?L]"
      by (metis append_butlast_last_id butlast_conv_take)
    have "foldl fadd (Fin 0 0) (map elem_length (take (length ?L - 1) ?L @ [last ?L])) =
        fadd ?p (elem_length (last ?L))"
      by simp
    with split have total: "foldl fadd (Fin 0 0) (map elem_length ?L) = fadd ?p (elem_length (last ?L))"
      by simp
    from get_s_loop_present [OF i d, of "Fin 0 0"] l
    have pos: "get_s (last ?L) s = (Inr ?p, s)"
      by (simp add: get_s_def)
    from total have "get_length s = (Inr (fadd ?p (elem_length (last ?L))), s)"
      by (simp add: get_length_foldl)
    with pos
    show "\<exists>p. get_s (last ?L) s = (Inr p, s) \<and>
         get_length s = (Inr (fadd p (elem_length (last ?L))), s)"
      by blast }
  { fix e :: element assume "elem_id e \<notin> elem_id ` set ?L"
    then show "get_s e s = (Inl LatticeException, s)"
      by (simp add: get_s_def get_s_loop_absent) }
qed

text \<open>
  C4 as first stated, that the position of the last element is the total length less
  its own length, fails on three distinct elements of length \<^verbatim>\<open>0.1\<close>: the last one is at
  \<^verbatim>\<open>0.2\<close>, the double \<open>3602879701896397 * 2 ^ - 54\<close>, while the total length
  \<^verbatim>\<open>0.30000000000000004\<close> less \<^verbatim>\<open>0.1\<close> is \<^verbatim>\<open>0.20000000000000004\<close>, the double
  \<open>7205759403792795 * 2 ^ - 55\<close>.
\<close>

theorem get_s_position_counterexample:
  "distinct (map elem_id (elems (self tenths_state))) \<and>
   last (elems (self tenths_state)) = drift 3 \<and>
   get_s (drift 3) tenths_state = (Inr (Fin 3602879701896397 (- 54)), tenths_state) \<and>
   get_length tenths_state = (Inr (Fin 1351079888211149 (- 52)), tenths_state) \<and>
   fsub (Fin 1351079888211149 (- 52)) (elem_length (drift 3)) = Fin 7205759403792795 (- 55) \<and>
   Fin 7205759403792795 (- 55) \<noteq> Fin 3602879701896397 (- 54)"
proof -
  have ids: "\<And>i. elem_id (drift i) = i"
    by (simp add: drift_def mk_element_def)
  have len: "\<And>i. elem_length (drift i) = Fin 3602879701896397 (- 55)"
    by (simp add: drift_def mk_element_def tenth_def)
  have l: "elems (self tenths_state) = [drift 1, drift 2, drift 3]"
    by (simp add: tenths_state_def)
  have "get_s (drift 3) tenths_state = (Inr (Fin 3602879701896397 (- 54)), tenths_state)"
    by (simp add: get_s_def l ids len fadd_tenths)
  moreover have "get_length tenths_state = (Inr (Fin 1351079888211149 (- 52)), tenths_state)"
    by (simp add: get_length_def l len fadd_tenths)
  ultimately show ?thesis
    by (simp add: l ids len fsub_tenth)
qed

theorem get_s_position_witness:
  "distinct (map elem_id (elems (self demo_state))) \<and>
   get_s bpm1 demo_state = (Inr (Fin 0 0), demo_state) \<and>
   get_s bpm2 demo_state = (Inr (double_of_int 3), demo_state) \<and>
   get_s (bpm1\<lparr>elem_id := 99\<rparr>) demo_state = (Inl LatticeException, demo_state)"
proof -
  have d: "distinct (map elem_id (elems (self demo_state)))"
    by (simp add: demo_defs)
  have l: "elems (self demo_state) = [bpm1, quad, bpm2]"
    by (simp add: demo_state_def)
  have n: "elem_id (bpm1\<lparr>elem_id := 99\<rparr>) \<notin> elem_id ` set (elems (self demo_state))"
    by (simp add: demo_defs)
  from get_s_position [OF d] have
    a: "\<forall>i<length (elems (self demo_state)). get_s (elems (self demo_state) ! i) demo_state =
          (Inr (foldl fadd (Fin 0 0) (map elem_length (take i (elems (self demo_state))))), demo_state)"
    and b: "\<forall>e. elem_id e \<notin> elem_id ` set (elems (self demo_state)) \<longrightarrow>
          get_s e demo_state = (Inl LatticeException, demo_state)"
    by blast+
  from a [rule_format, of 0] have first: "get_s bpm1 demo_state = (Inr (Fin 0 0), demo_state)"
    by (simp add: l)
  from a [rule_format, of 2] have third: "get_s bpm2 demo_state = (Inr (double_of_int 3), demo_state)"
    by (simp add: l) (simp add: bpm1_def quad_def mk_element_def double_of_int_values fadd_small_values)
  from b n have "get_s (bpm1\<lparr>elem_id := 99\<rparr>) demo_state = (Inl LatticeException, demo_state)"
    by blast
  with d first third show ?thesis by simp
qed

text \<open>
  C8. \<^verbatim>\<open>get_length\<close> is the float sum of the lengths of the elements, added up from 0 in
  lattice order. A lattice of three elements of lengths 1.0, 2.0 and 3.0 has length 6.0,
  and its third element is at position 3.0.
\<close>

theorem get_length_sum:
  "get_length s = (Inr (foldl fadd (Fin 0 0) (map elem_length (elems (self s)))), s) \<and>
   (elems (self s) = [e1, e2, e3] \<and> elem_length e1 = double_of_int 1 \<and>
    elem_length e2 = double_of_int 2 \<and> elem_length e3 = double_of_int 3 \<and>
    elem_id e3 \<noteq> elem_id e1 \<and> elem_id e3 \<noteq> elem_id e2 \<longrightarrow>
      get_length s = (Inr (double_of_int 6), s) \<and> get_s e3 s = (Inr (double_of_int 3), s))"
proof (intro conjI impI)
  show "get_length s = (Inr (foldl fadd (Fin 0 0) (map elem_length (elems (self s)))), s)"
    by (rule get_length_foldl)
next
  assume a: "elems (self s) = [e1, e2, e3] \<and> elem_length e1 = double_of_int 1 \<and>
    elem_length e2 = double_of_int 2 \<and> elem_length e3 = double_of_int 3 \<and>
    elem_id e3 \<noteq> elem_id e1 \<and> elem_id e3 \<noteq> elem_id e2"
  then show "get_length s = (Inr (double_of_int 6), s)"
    by (simp add: get_length_def double_of_int_values fadd_small_values)
  from a show "get_s e3 s = (Inr (double_of_int 3), s)"
    by (simp add: get_s_def double_of_int_values fadd_small_values)
qed

theorem get_length_sum_witness:
  "elems (self built_state) = [bpm1, quad, bpm2] \<and>
   elem_length bpm1 = double_of_int 1 \<and> elem_length quad = double_of_int 2 \<and>
   elem_length bpm2 = double_of_int 3 \<and>
   elem_id bpm2 \<noteq> elem_id bpm1 \<and> elem_id bpm2 \<noteq> elem_id quad \<and>
   get_length built_state = (Inr (Fin 3 1), built_state) \<and>
   get_s bpm2 built_state = (Inr (Fin 3 0), built_state)"
proof -
  have a: "elems (self built_state) = [bpm1, quad, bpm2] \<and>
   elem_length bpm1 = double_of_int 1 \<and> elem_length quad = double_of_int 2 \<and>
   elem_length bpm2 = double_of_int 3 \<and>
   elem_id bpm2 \<noteq> elem_id bpm1 \<and> elem_id bpm2 \<noteq> elem_id quad"
    by (simp add: built_state_def add_element_def init_def bpm1_def quad_def bpm2_def mk_element_def)
  from get_length_sum [of built_state bpm1 quad bpm2] a show ?thesis
    by (simp add: double_of_int_values fadd_small_values)
qed

section \<open>Setting the values of a family\<close>

lemma set_loop_prefix:
  "\<exists>k \<le> length ps. snd (set_element_values_loop f ps s) =
       s\<lparr>trace := trace s @ take k (map (\<lambda>(e, v). ElemSetValue (elem_id e) f v) ps)\<rparr>"
proof (induction ps arbitrary: s)
  case Nil
  then show ?case by simp
next
  case (Cons p ps)
  obtain e v where p: "p = (e, v)" by (cases p)
  let ?c = "ElemSetValue (elem_id e) f v"
  let ?s1 = "s\<lparr>trace := trace s @ [?c]\<rparr>"
  show ?case
  proof (cases "elem_set_value e (trace s) f v")
    case (Inl x)
    then have "snd (set_element_values_loop f (p # ps) s) = ?s1"
      by (simp add: p call_ext_def)
    then show ?thesis
      by (intro exI [of _ 1]) (simp add: p)
  next
    case (Inr u)
    then have eq: "set_element_values_loop f ((e, v) # ps) s = set_element_values_loop f ps ?s1"
      by (simp add: call_ext_def)
    from Cons.IH [of ?s1] obtain k where k: "k \<le> length ps"
      and t: "snd (set_element_values_loop f ps ?s1) =
          ?s1\<lparr>trace := trace ?s1 @ take k (map (\<lambda>(e, v). ElemSetValue (elem_id e) f v) ps)\<rparr>"
      by blast
    show ?thesis
      unfolding p eq by (intro exI [of _ "Suc k"]) (simp add: t k)
  qed
qed

lemma set_loop_returned:
  "fst (set_element_values_loop f ps s) = Inr () \<Longrightarrow>
   snd (set_element_values_loop f ps s) =
     s\<lparr>trace := trace s @ map (\<lambda>(e, v). ElemSetValue (elem_id e) f v) ps\<rparr>"
proof (induction ps arbitrary: s)
  case Nil
  then show ?case by simp
next
  case (Cons p ps)
  obtain e v where p: "p = (e, v)" by (cases p)
  let ?s1 = "s\<lparr>trace := trace s @ [ElemSetValue (elem_id e) f v]\<rparr>"
  from Cons.prems obtain u where "elem_set_value e (trace s) f v = Inr u"
    by (cases "elem_set_value e (trace s) f v") (simp_all add: p call_ext_def)
  then have eq: "set_element_values_loop f ((e, v) # ps) s = set_element_values_loop f ps ?s1"
    by (simp add: call_ext_def)
  with Cons.prems Cons.IH [of ?s1] show ?case
    unfolding p by simp
qed

lemma set_loop_all_return:
  "\<forall>r \<in> set (set_answers f ps (trace s)). r = Inr () \<Longrightarrow>
   set_element_values_loop f ps s =
     (Inr (), s\<lparr>trace := trace s @ map (\<lambda>(e, v). ElemSetValue (elem_id e) f v) ps\<rparr>)"
proof (induction ps arbitrary: s)
  case Nil
  then show ?case by simp
next
  case (Cons p ps)
  obtain e v where p: "p = (e, v)" by (cases p)
  let ?s1 = "s\<lparr>trace := trace s @ [ElemSetValue (elem_id e) f v]\<rparr>"
  from Cons.prems have a: "elem_set_value e (trace s) f v = Inr ()"
    and rest: "\<forall>r \<in> set (set_answers f ps (trace ?s1)). r = Inr ()"
    by (simp_all add: p)
  from a have eq: "set_element_values_loop f ((e, v) # ps) s = set_element_values_loop f ps ?s1"
    by (simp add: call_ext_def)
  from Cons.IH [OF rest] show ?case
    unfolding p eq by simp
qed

lemma set_element_values_unfold:
  "set_element_values fam f vals s =
     (if length (family_members fam (self s)) \<noteq> length vals then (Inl LatticeException, s)
      else set_element_values_loop f (zip (family_members fam (self s)) vals) s)"
  by (simp add: set_element_values_def and_then_def get_elements_no_cell raise_def)

text \<open>
  C5. When the number of values differs from the number of elements of the family,
  \<^verbatim>\<open>set_element_values\<close> raises \<^verbatim>\<open>LatticeException\<close>. When the numbers agree, the calls it
  makes are calls of the elements' own \<^verbatim>\<open>set_value\<close>, in lattice order, each with the field
  and the value of the same position as given, and no unit conversion is called: the
  calls made are a prefix of \<open>set_calls\<close>, all of it when the method returns, and the method
  returns when every element's \<^verbatim>\<open>set_value\<close> does.
\<close>

theorem set_element_values_calls:
  "(length (family_members fam (self s)) \<noteq> length vals \<longrightarrow>
      set_element_values fam f vals s = (Inl LatticeException, s)) \<and>
   (length (family_members fam (self s)) = length vals \<longrightarrow>
      (\<exists>k \<le> length vals. snd (set_element_values fam f vals s) =
          s\<lparr>trace := trace s @ take k (set_calls f (family_members fam (self s)) vals)\<rparr>) \<and>
      (fst (set_element_values fam f vals s) = Inr () \<longrightarrow>
         snd (set_element_values fam f vals s) =
           s\<lparr>trace := trace s @ set_calls f (family_members fam (self s)) vals\<rparr>) \<and>
      ((\<forall>r \<in> set (set_answers f (zip (family_members fam (self s)) vals) (trace s)). r = Inr ()) \<longrightarrow>
         set_element_values fam f vals s =
           (Inr (), s\<lparr>trace := trace s @ set_calls f (family_members fam (self s)) vals\<rparr>)))"
proof (intro conjI impI)
  assume "length (family_members fam (self s)) \<noteq> length vals"
  then show "set_element_values fam f vals s = (Inl LatticeException, s)"
    by (simp add: set_element_values_unfold)
next
  assume n: "length (family_members fam (self s)) = length vals"
  from set_loop_prefix [of "zip (family_members fam (self s)) vals" f s] n
  show "\<exists>k \<le> length vals. snd (set_element_values fam f vals s) =
          s\<lparr>trace := trace s @ take k (set_calls f (family_members fam (self s)) vals)\<rparr>"
    by (simp add: set_element_values_unfold set_calls_def)
next
  assume n: "length (family_members fam (self s)) = length vals"
    and r: "fst (set_element_values fam f vals s) = Inr ()"
  from r n have "fst (set_element_values_loop f (zip (family_members fam (self s)) vals) s) = Inr ()"
    by (simp add: set_element_values_unfold)
  from set_loop_returned [OF this] n
  show "snd (set_element_values fam f vals s) =
           s\<lparr>trace := trace s @ set_calls f (family_members fam (self s)) vals\<rparr>"
    by (simp add: set_element_values_unfold set_calls_def)
next
  assume n: "length (family_members fam (self s)) = length vals"
    and a: "\<forall>r \<in> set (set_answers f (zip (family_members fam (self s)) vals) (trace s)). r = Inr ()"
  from set_loop_all_return [OF a] n
  show "set_element_values fam f vals s =
           (Inr (), s\<lparr>trace := trace s @ set_calls f (family_members fam (self s)) vals\<rparr>)"
    by (simp add: set_element_values_unfold set_calls_def)
qed

theorem set_element_values_calls_witness:
  "length (family_members (Some ''BPM'') (self demo_state)) \<noteq> length [5::real] \<and>
   set_element_values (Some ''BPM'') ''x'' [5] demo_state = (Inl LatticeException, demo_state) \<and>
   length (family_members (Some ''BPM'') (self demo_state)) = length [5::real, 7] \<and>
   set_answers ''x'' (zip (family_members (Some ''BPM'') (self demo_state)) [5, 7])
        (trace demo_state) = [Inr (), Inr ()] \<and>
   set_element_values (Some ''BPM'') ''x'' [5, 7] demo_state =
     (Inr (), demo_state\<lparr>trace := [ElemSetValue 1 ''x'' 5, ElemSetValue 3 ''x'' 7]\<rparr>)"
proof -
  have fm: "family_members (Some ''BPM'') (self demo_state) = [bpm1, bpm2]"
    by (simp add: family_members_def demo_defs)
  have ans: "set_answers ''x'' (zip (family_members (Some ''BPM'') (self demo_state)) [5, 7])
        (trace demo_state) = [Inr (), Inr ()]"
    by (simp add: fm) (simp add: demo_defs)
  then have a: "\<forall>r \<in> set (set_answers ''x'' (zip (family_members (Some ''BPM'') (self demo_state)) [5, 7])
        (trace demo_state)). r = Inr ()"
    by simp
  from set_element_values_calls [of "Some ''BPM''" demo_state "[5]" "''x''"]
  have one: "set_element_values (Some ''BPM'') ''x'' [5] demo_state = (Inl LatticeException, demo_state)"
    by (simp add: fm)
  from set_element_values_calls [of "Some ''BPM''" demo_state "[5, 7]" "''x''"] a
  have two: "set_element_values (Some ''BPM'') ''x'' [5, 7] demo_state =
     (Inr (), demo_state\<lparr>trace := trace demo_state @
        set_calls ''x'' (family_members (Some ''BPM'') (self demo_state)) [5, 7]\<rparr>)"
    by (simp add: fm)
  have "trace demo_state @ set_calls ''x'' (family_members (Some ''BPM'') (self demo_state)) [5, 7] =
     [ElemSetValue 1 ''x'' 5, ElemSetValue 3 ''x'' 7]"
    by (simp add: fm set_calls_def) (simp add: demo_defs)
  with one two ans show ?thesis by (simp add: fm)
qed

text \<open>
  C10. When \<^verbatim>\<open>set_element_values\<close> raises \<^verbatim>\<open>LatticeException\<close> for a wrong number of
  values, no \<^verbatim>\<open>set_value\<close> of any element has been called: the state, and with it the calls
  made so far, is the one the method started in.
\<close>

theorem set_element_values_mismatch:
  "length (family_members fam (self s)) \<noteq> length vals \<Longrightarrow>
   set_element_values fam f vals s = (Inl LatticeException, s) \<and>
   trace (snd (set_element_values fam f vals s)) = trace s"
  by (simp add: set_element_values_unfold)

theorem set_element_values_mismatch_witness:
  "length (family_members None (self demo_state)) \<noteq> length [1::real, 2] \<and>
   set_element_values None ''x'' [1, 2] demo_state = (Inl LatticeException, demo_state) \<and>
   trace (snd (set_element_values None ''x'' [1, 2] demo_state)) = trace demo_state"
proof -
  have n: "length (family_members None (self demo_state)) \<noteq> length [1::real, 2]"
    by (simp add: family_members_def demo_state_def)
  from set_element_values_mismatch [OF n, of "''x''"] n show ?thesis by simp
qed

section \<open>Writing a value and reading it back\<close>

text \<open>
  C6. With a model registered under the key, a unit conversion for the field that is
  its own inverse between the units asked for and the units of the model, and a model
  that returns the value last written to the field, \<^verbatim>\<open>set_value\<close> with the setpoint
  handle returns, and \<^verbatim>\<open>get_value\<close> of the same field, handle, units and model after it
  returns the value that was set.
\<close>

theorem set_then_get_value:
  assumes m: "map_of (models (self s)) k = Some m"
    and c: "uc (self s) f = Some c"
    and inv: "own_inverse c u (model_units m)"
    and last: "returns_last_set m f"
  shows "fst (set_value f v SP u k s) = Inr () \<and>
         fst (get_value f SP u k (snd (set_value f v SP u k s))) = Inr v"
proof -
  from inv obtain b where b: "convert c (trace s) v u (model_units m) = Inr b"
    and roundtrip: "\<And>t'. convert c t' b (model_units m) u = Inr v"
    unfolding own_inverse_def by blast
  let ?t1 = "trace s @ [UcConvert (uc_id c) v u (model_units m)]"
  let ?t2 = "?t1 @ [ModelSetValue (model_id m) f b]"
  from last have w: "model_set_value m ?t1 f b = Inr ()"
    and r: "model_get_value m ?t2 f SP = Inr b"
    unfolding returns_last_set_def by blast+
  have set: "set_value f v SP u k s = (Inr (), s\<lparr>trace := ?t2\<rparr>)"
    using m c b w
    by (simp add: set_value_def and_then_def try_except_def lookup_models_def lookup_uc_def call_ext_def)
  have get: "fst (get_value f SP u k (s\<lparr>trace := ?t2\<rparr>)) = Inr v"
    using m c r roundtrip
    by (simp add: get_value_def and_then_def try_except_def lookup_models_def lookup_uc_def call_ext_def)
  from set get show ?thesis by simp
qed

theorem set_then_get_value_witness:
  "map_of (models (self demo_state)) LIVE = Some demo_model \<and>
   uc (self demo_state) ''x'' = Some demo_uc \<and>
   own_inverse demo_uc ENG (model_units demo_model) \<and>
   returns_last_set demo_model ''x'' \<and>
   fst (set_value ''x'' 5 SP ENG LIVE demo_state) = Inr () \<and>
   fst (get_value ''x'' SP ENG LIVE (snd (set_value ''x'' 5 SP ENG LIVE demo_state))) = Inr 5"
proof -
  have m: "map_of (models (self demo_state)) LIVE = Some demo_model"
    by (simp add: demo_state_def)
  have c: "uc (self demo_state) ''x'' = Some demo_uc"
    by (simp add: demo_state_def)
  have i: "own_inverse demo_uc ENG (model_units demo_model)"
    by (simp add: own_inverse_def demo_uc_def demo_model_def)
  have l: "returns_last_set demo_model ''x''"
    by (simp add: returns_last_set_def demo_model_def last_set_def)
  from set_then_get_value [OF m c i l, of 5] m c i l show ?thesis by simp
qed

section \<open>The devices of a family\<close>

lemma devices_loop_found:
  "\<forall>r \<in> set (device_answers f es (trace s)). isl r \<longrightarrow> r = Inl KeyError \<Longrightarrow>
   get_element_devices_loop f es acc s =
     (Inr (acc @ found_devices (device_answers f es (trace s))),
      s\<lparr>trace := trace s @ device_calls f es\<rparr>)"
proof (induction es arbitrary: acc s)
  case Nil
  then show ?case by (simp add: found_devices_def device_calls_def)
next
  case (Cons e es)
  let ?s1 = "s\<lparr>trace := trace s @ [ElemGetDevice (elem_id e) f]\<rparr>"
  from Cons.prems have rest: "\<forall>r \<in> set (device_answers f es (trace ?s1)). isl r \<longrightarrow> r = Inl KeyError"
    by simp
  show ?case
  proof (cases "elem_get_device e (trace s) f")
    case (Inl x)
    with Cons.prems have "x = KeyError" by simp
    with Inl Cons.IH [OF rest, of acc] show ?thesis
      by (simp add: call_ext_def found_devices_def device_calls_def)
  next
    case (Inr d)
    with Cons.IH [OF rest, of "acc @ [d]"] show ?thesis
      by (simp add: call_ext_def found_devices_def device_calls_def)
  qed
qed

lemma devices_loop_other_error:
  "elem_get_device e (trace s) f = Inl x \<Longrightarrow> x \<noteq> KeyError \<Longrightarrow>
   get_element_devices_loop f (e # es) acc s =
     (Inl x, s\<lparr>trace := trace s @ [ElemGetDevice (elem_id e) f]\<rparr>)"
  by (simp add: call_ext_def)

text \<open>
  C7. When every device lookup that fails, fails with a \<^verbatim>\<open>KeyError\<close>,
  \<^verbatim>\<open>get_element_devices\<close> returns the devices of the family's elements whose lookup
  returns, in lattice order; the elements whose lookup raises \<^verbatim>\<open>KeyError\<close> add nothing
  and the caller sees no exception. \<^verbatim>\<open>get_element_device_names\<close> returns the names of the
  same devices in the same order. Every element of the family is asked once.
\<close>

theorem get_element_devices_found:
  "\<forall>r \<in> set (device_answers f (family_members fam (self s)) (trace s)). isl r \<longrightarrow> r = Inl KeyError \<Longrightarrow>
   get_element_devices fam f s =
     (Inr (found_devices (device_answers f (family_members fam (self s)) (trace s))),
      s\<lparr>trace := trace s @ device_calls f (family_members fam (self s))\<rparr>) \<and>
   get_element_device_names fam f s =
     (Inr (map device_name (found_devices (device_answers f (family_members fam (self s)) (trace s)))),
      s\<lparr>trace := trace s @ device_calls f (family_members fam (self s))\<rparr>)"
proof -
  assume a: "\<forall>r \<in> set (device_answers f (family_members fam (self s)) (trace s)). isl r \<longrightarrow> r = Inl KeyError"
  from devices_loop_found [OF a, of "[]"]
  have d: "get_element_devices fam f s =
     (Inr (found_devices (device_answers f (family_members fam (self s)) (trace s))),
      s\<lparr>trace := trace s @ device_calls f (family_members fam (self s))\<rparr>)"
    by (simp add: get_element_devices_def and_then_def get_elements_no_cell)
  then show ?thesis
    by (simp add: get_element_device_names_def and_then_def return_def)
qed

theorem get_element_devices_found_witness:
  "device_answers ''x'' (family_members (Some ''BPM'') (self demo_state)) (trace demo_state) =
     [Inr \<lparr>device_id = 11, device_name = ''BPM1:X''\<rparr>, Inl KeyError] \<and>
   get_element_devices (Some ''BPM'') ''x'' demo_state =
     (Inr [\<lparr>device_id = 11, device_name = ''BPM1:X''\<rparr>],
      demo_state\<lparr>trace := [ElemGetDevice 1 ''x'', ElemGetDevice 3 ''x'']\<rparr>) \<and>
   get_element_device_names (Some ''BPM'') ''x'' demo_state =
     (Inr [''BPM1:X''], demo_state\<lparr>trace := [ElemGetDevice 1 ''x'', ElemGetDevice 3 ''x'']\<rparr>)"
proof -
  have fm: "family_members (Some ''BPM'') (self demo_state) = [bpm1, bpm2]"
    by (simp add: family_members_def demo_defs)
  have ans: "device_answers ''x'' [bpm1, bpm2] (trace demo_state) =
      [Inr \<lparr>device_id = 11, device_name = ''BPM1:X''\<rparr>, Inl KeyError]"
    by (simp add: bpm1_def bpm2_def mk_element_def)
  have a: "\<forall>r \<in> set (device_answers ''x'' (family_members (Some ''BPM'') (self demo_state)) (trace demo_state)).
      isl r \<longrightarrow> r = Inl KeyError"
    unfolding fm ans by simp
  have t: "trace demo_state @ device_calls ''x'' [bpm1, bpm2] = [ElemGetDevice 1 ''x'', ElemGetDevice 3 ''x'']"
    by (simp add: device_calls_def demo_defs)
  from get_element_devices_found [OF a] show ?thesis
    unfolding fm ans by (simp add: t found_devices_def)
qed

section \<open>Queries leave the lattice as it is\<close>

lemma keeps_self_call_ext: "keeps_self (call_ext c a)"
  by (simp add: keeps_self_def call_ext_def)

lemma keeps_self_raise: "keeps_self (raise e)"
  by (simp add: keeps_self_def raise_def)

lemma keeps_self_return: "keeps_self (return x)"
  by (simp add: keeps_self_def return_def)

lemma keeps_self_lookup_models: "keeps_self (lookup_models k)"
  by (simp add: keeps_self_def lookup_models_def split: option.splits)

lemma keeps_self_lookup_uc: "keeps_self (lookup_uc f)"
  by (simp add: keeps_self_def lookup_uc_def split: option.splits)

lemma keeps_self_and_then:
  "keeps_self m \<Longrightarrow> (\<And>x. keeps_self (g x)) \<Longrightarrow> keeps_self (and_then m g)"
  unfolding keeps_self_def and_then_def
  by (auto split: prod.splits sum.splits) (metis snd_conv)+

lemma keeps_self_try_except: "keeps_self m \<Longrightarrow> keeps_self (try_except m h)"
  unfolding keeps_self_def try_except_def
  by (auto split: prod.splits sum.splits) (metis snd_conv)+

lemmas keeps_self_intros =
  keeps_self_and_then keeps_self_try_except keeps_self_call_ext keeps_self_raise
  keeps_self_return keeps_self_lookup_models keeps_self_lookup_uc

lemma keeps_self_get_fields_loop: "self (snd (get_fields_loop ks fs s)) = self s"
  by (induction ks arbitrary: fs s)
     (simp_all add: lookup_models_def call_ext_def split: option.splits sum.splits)

lemma keeps_self_get_value: "keeps_self (get_value f h u k)"
  unfolding get_value_def by (intro keeps_self_intros)

lemma keeps_self_get_device: "keeps_self (get_device f)"
  unfolding get_device_def by (intro keeps_self_intros)

lemma keeps_self_get_elements: "keeps_self (get_elements fam c)"
  by (simp add: keeps_self_def get_elements_def Let_def)

lemma keeps_self_get_family_s_loop: "self (snd (get_family_s_loop es ps s)) = self s"
  by (induction es arbitrary: ps s) (simp_all add: get_s_def split: sum.splits)

lemma keeps_self_get_family_s: "keeps_self (get_family_s fam)"
  unfolding get_family_s_def
  by (intro keeps_self_intros keeps_self_get_elements)
     (simp add: keeps_self_def keeps_self_get_family_s_loop)

lemma keeps_self_devices_loop: "self (snd (get_element_devices_loop f es ds s)) = self s"
  by (induction es arbitrary: ds s) (simp_all add: call_ext_def split: sum.splits)

lemma keeps_self_get_element_devices: "keeps_self (get_element_devices fam f)"
  unfolding get_element_devices_def
  by (intro keeps_self_intros keeps_self_get_elements)
     (simp add: keeps_self_def keeps_self_devices_loop)

lemma keeps_self_get_element_device_names: "keeps_self (get_element_device_names fam f)"
  unfolding get_element_device_names_def
  by (intro keeps_self_intros keeps_self_get_element_devices)

lemma keeps_self_values_loop: "self (snd (get_element_values_loop f h es vs s)) = self s"
  by (induction es arbitrary: vs s) (simp_all add: call_ext_def split: sum.splits)

lemma keeps_self_get_element_values: "keeps_self (get_element_values fam f h dt)"
  unfolding get_element_values_def
  by (intro keeps_self_intros keeps_self_get_elements)
     (simp_all add: keeps_self_def keeps_self_values_loop raise_def return_def
        split: option.splits sum.splits)

text \<open>
  C9. After each of the thirteen queries the lattice object (its name, its elements,
  its energy, its table of models and its table of unit conversions) is what it was
  before, whether the query returned or raised.
\<close>

theorem queries_keep_lattice:
  "self (snd (get_value f h u k s)) = self s \<and>
   self (snd (get_fields s)) = self s \<and>
   self (snd (get_device f s)) = self s \<and>
   self (snd (get_unitconv f s)) = self s \<and>
   self (snd (get_energy s)) = self s \<and>
   self (snd (get_length s)) = self s \<and>
   self (snd (get_elements fam c s)) = self s \<and>
   self (snd (get_all_families s)) = self s \<and>
   self (snd (get_s e s)) = self s \<and>
   self (snd (get_family_s fam s)) = self s \<and>
   self (snd (get_element_devices fam f s)) = self s \<and>
   self (snd (get_element_device_names fam f s)) = self s \<and>
   self (snd (get_element_values fam f h dt s)) = self s"
proof (intro conjI)
  show "self (snd (get_value f h u k s)) = self s"
    using keeps_self_get_value by (simp add: keeps_self_def)
  show "self (snd (get_fields s)) = self s"
    by (simp add: get_fields_def keeps_self_get_fields_loop)
  show "self (snd (get_device f s)) = self s"
    using keeps_self_get_device by (simp add: keeps_self_def)
  show "self (snd (get_unitconv f s)) = self s"
    using keeps_self_lookup_uc by (simp add: keeps_self_def get_unitconv_def)
  show "self (snd (get_energy s)) = self s"
    by (simp add: get_energy_def)
  show "self (snd (get_length s)) = self s"
    by (simp add: get_length_def)
  show "self (snd (get_elements fam c s)) = self s"
    using keeps_self_get_elements by (simp add: keeps_self_def)
  show "self (snd (get_all_families s)) = self s"
    by (simp add: get_all_families_def)
  show "self (snd (get_s e s)) = self s"
    by (simp add: get_s_def)
  show "self (snd (get_family_s fam s)) = self s"
    using keeps_self_get_family_s by (simp add: keeps_self_def)
  show "self (snd (get_element_devices fam f s)) = self s"
    using keeps_self_get_element_devices by (simp add: keeps_self_def)
  show "self (snd (get_element_device_names fam f s)) = self s"
    using keeps_self_get_element_device_names by (simp add: keeps_self_def)
  show "self (snd (get_element_values fam f h dt s)) = self s"
    using keeps_self_get_element_values by (simp add: keeps_self_def)
qed

theorem queries_keep_lattice_witness:
  "self (snd (get_value ''x'' RB ENG LIVE demo_state)) = self demo_state \<and>
   self (snd (get_fields demo_state)) = self demo_state \<and>
   self (snd (get_device ''x'' demo_state)) = self demo_state \<and>
   self (snd (get_unitconv ''x'' demo_state)) = self demo_state \<and>
   self (snd (get_energy demo_state)) = self demo_state \<and>
   self (snd (get_length demo_state)) = self demo_state \<and>
   self (snd (get_elements (Some ''BPM'') (Some 1) demo_state)) = self demo_state \<and>
   self (snd (get_all_families demo_state)) = self demo_state \<and>
   self (snd (get_s quad demo_state)) = self demo_state \<and>
   self (snd (get_family_s (Some ''BPM'') demo_state)) = self demo_state \<and>
   self (snd (get_element_devices (Some ''BPM'') ''x'' demo_state)) = self demo_state \<and>
   self (snd (get_element_device_names (Some ''BPM'') ''x'' demo_state)) = self demo_state \<and>
   self (snd (get_element_values (Some ''BPM'') ''x'' RB None demo_state)) = self demo_state"
  by (rule queries_keep_lattice)

end
